theory Spec2Isabelle
  imports Main
begin

section \<open>JavaScript numbers and their text\<close>

text \<open>
  The chaincode keeps every credit balance as the decimal text of a number and reads it
  back with \<^verbatim>\<open>parseInt\<close>, so a balance read yields an integer or \<^verbatim>\<open>NaN\<close>.
  Numbers are modelled as unbounded integers plus \<^verbatim>\<open>NaN\<close>: arithmetic is exact, as
  JavaScript's is for integers up to \<open>2^53\<close>. Strings are ASCII.
\<close>

datatype jsnum = NaN | Num int

fun js_add :: "jsnum \<Rightarrow> jsnum \<Rightarrow> jsnum" where
  "js_add (Num a) (Num b) = Num (a + b)"
| "js_add _ _ = NaN"

fun js_less :: "jsnum \<Rightarrow> jsnum \<Rightarrow> bool" where
  "js_less (Num a) (Num b) = (a < b)"
| "js_less _ _ = False"

fun js_le :: "jsnum \<Rightarrow> jsnum \<Rightarrow> bool" where
  "js_le (Num a) (Num b) = (a \<le> b)"
| "js_le _ _ = False"

text \<open>
  A number as a JSON text holds it. \<^verbatim>\<open>JSON.stringify\<close> writes \<^verbatim>\<open>NaN\<close> as \<^verbatim>\<open>null\<close>, and
  \<^verbatim>\<open>JSON.parse\<close> gives \<^verbatim>\<open>null\<close> back; a comparison reads \<^verbatim>\<open>null\<close> as the number 0.
\<close>

datatype jnum = JNull | JNum int

fun json_number :: "jsnum \<Rightarrow> jnum" where
  "json_number NaN = JNull"
| "json_number (Num n) = JNum n"

fun to_number :: "jnum \<Rightarrow> jsnum" where
  "to_number JNull = Num 0"
| "to_number (JNum n) = Num n"

fun digits :: "nat \<Rightarrow> nat list" where
  "digits n = (if n < 10 then [n] else digits (n div 10) @ [n mod 10])"

declare digits.simps [simp del]

definition digit_char :: "nat \<Rightarrow> char" where
  "digit_char d = char_of (48 + d)"

text \<open>\<^verbatim>\<open>Number.prototype.toString\<close> on an integer or \<^verbatim>\<open>NaN\<close>.\<close>

definition toString :: "jsnum \<Rightarrow> string" where
  "toString x =
     (case x of
        NaN \<Rightarrow> ''NaN''
      | Num n \<Rightarrow>
          (if n < 0 then CHR ''-'' # map digit_char (digits (nat (- n)))
           else map digit_char (digits (nat n))))"

definition is_space :: "char \<Rightarrow> bool" where
  "is_space c = ((of_char c :: nat) \<in> {9, 10, 11, 12, 13, 32})"

definition digit_val :: "nat \<Rightarrow> char \<Rightarrow> nat option" where
  "digit_val radix c =
     (let n = (of_char c :: nat);
          v = (if 48 \<le> n \<and> n \<le> 57 then Some (n - 48)
               else if 97 \<le> n \<and> n \<le> 122 then Some (n - 87)
               else if 65 \<le> n \<and> n \<le> 90 then Some (n - 55)
               else None)
      in case v of None \<Rightarrow> None | Some d \<Rightarrow> if d < radix then Some d else None)"

fun digits_prefix :: "nat \<Rightarrow> string \<Rightarrow> nat list" where
  "digits_prefix radix [] = []"
| "digits_prefix radix (c # cs) =
     (case digit_val radix c of None \<Rightarrow> [] | Some d \<Rightarrow> d # digits_prefix radix cs)"

definition from_digits :: "nat \<Rightarrow> nat list \<Rightarrow> nat" where
  "from_digits radix ds = foldl (\<lambda>a d. a * radix + d) 0 ds"

text \<open>
  \<^verbatim>\<open>parseInt(s)\<close> with no radix: leading white space is dropped, one sign is read, a
  \<^verbatim>\<open>0x\<close> prefix selects base 16, and the longest prefix of digits is the value; no digit
  at all gives \<^verbatim>\<open>NaN\<close>.
\<close>

definition parseInt :: "string \<Rightarrow> jsnum" where
  "parseInt s =
     (let s1 = dropWhile is_space s;
          neg = (case s1 of c # _ \<Rightarrow> c = CHR ''-'' | [] \<Rightarrow> False);
          s2 = (case s1 of c # cs \<Rightarrow> if c = CHR ''+'' \<or> c = CHR ''-'' then cs else s1 | [] \<Rightarrow> s1);
          hex = (case s2 of c0 # cx # _ \<Rightarrow> c0 = CHR ''0'' \<and> (cx = CHR ''x'' \<or> cx = CHR ''X'')
                 | _ \<Rightarrow> False);
          radix = (if hex then 16 else 10);
          s3 = (if hex then drop 2 s2 else s2);
          ds = digits_prefix radix s3
      in if ds = [] then NaN
         else Num ((if neg then - 1 else 1) * int (from_digits radix ds)))"

section \<open>Records of the world state\<close>

record government =
  governmentAddress :: string
  governmentName :: string
  country :: string
  deptName :: string

record proposal =
  proposal_id :: string
  proposer :: string
  projectDescription :: string
  carbonReductionTarget :: int
  approved :: bool
  allocatedCredits :: int

record auction =
  auction_id :: string
  totalCredits :: int
  startingBid :: int
  highestBid :: jnum
  highestBidder :: string
  endTime :: int
  ended :: bool

record sale =
  sale_id :: string
  creditsForSale :: int
  pricePerCredit :: int
  seller :: string
  sold :: bool

text \<open>
  A value of the world state is the byte buffer handed to \<^verbatim>\<open>putState\<close>: either plain
  text (\<^verbatim>\<open>Buffer.from(x.toString())\<close>) or the JSON text of one of the four objects
  (\<^verbatim>\<open>Buffer.from(JSON.stringify(obj))\<close>). \<^verbatim>\<open>JSON.parse\<close> of the latter gives the object
  back, so the JSON text is represented by the object itself.
\<close>

datatype entry =
    Bytes string
  | GovJson government
  | ProposalJson proposal
  | AuctionJson auction
  | SaleJson sale

type_synonym ledger = "string \<rightharpoonup> entry"

text \<open>
  The errors thrown by the chaincode, named as in the specification:
  \<^item> \<open>NotFound\<close>: \<^verbatim>\<open>... does not exist\<close>;
  \<^item> \<open>AlreadyApproved\<close>: \<^verbatim>\<open>Project ... already approved\<close>;
  \<^item> \<open>NotApproved\<close>: \<^verbatim>\<open>Project ... is not approved\<close>;
  \<^item> \<open>AuctionEnded\<close>: \<^verbatim>\<open>Auction ... has ended\<close>;
  \<^item> \<open>BidTooLow\<close>: \<^verbatim>\<open>Bid too low\<close>;
  \<^item> \<open>StillOngoing\<close>: \<^verbatim>\<open>Auction ... is still ongoing\<close>;
  \<^item> \<open>AlreadyEnded\<close>: \<^verbatim>\<open>Auction ... already ended\<close>;
  \<^item> \<open>InsufficientCredits\<close>: \<^verbatim>\<open>Insufficient credits to sell\<close>;
  \<^item> \<open>AlreadySold\<close>: \<^verbatim>\<open>Sale ... already completed\<close>.

  \<open>Malformed\<close> is not thrown by name. It stands for an invocation that finds, under the
  key of a proposal, auction or sale, a value that is not the JSON text of such an
  object; the chaincode then fails inside \<^verbatim>\<open>JSON.parse\<close> or on a property of the parsed
  value, before any write.
\<close>

datatype error =
    NotFound
  | AlreadyApproved
  | NotApproved
  | AuctionEnded
  | BidTooLow
  | StillOngoing
  | AlreadyEnded
  | InsufficientCredits
  | AlreadySold
  | Malformed

section \<open>Transactions\<close>

text \<open>
  An invocation runs against the ledger, reads and writes it in program order, and either
  returns a value or throws. The ledger component of the result holds the writes made
  up to the return or the throw.
\<close>

type_synonym 'a tx = "ledger \<Rightarrow> (error + 'a) \<times> ledger"

definition tx_return :: "'a \<Rightarrow> 'a tx" where
  "tx_return x = (\<lambda>l. (Inr x, l))"

definition tx_throw :: "error \<Rightarrow> 'a tx" where
  "tx_throw e = (\<lambda>l. (Inl e, l))"

definition tx_bind :: "'a tx \<Rightarrow> ('a \<Rightarrow> 'b tx) \<Rightarrow> 'b tx" where
  "tx_bind m f =
     (\<lambda>l. case m l of (Inl e, l') \<Rightarrow> (Inl e, l') | (Inr x, l') \<Rightarrow> f x l')"

definition getState :: "string \<Rightarrow> entry option tx" where
  "getState k = (\<lambda>l. (Inr (l k), l))"

definition putState :: "string \<Rightarrow> entry \<Rightarrow> unit tx" where
  "putState k v = (\<lambda>l. (Inr (), l(k \<mapsto> v)))"

text \<open>
  What an invocation gets from outside the ledger: the caller identity
  (\<^verbatim>\<open>ctx.clientIdentity.getID()\<close>), the clock (\<^verbatim>\<open>Date.now()\<close>) and the identifier that
  \<^verbatim>\<open>uuidv4()\<close> returns.
\<close>

record env =
  clientIdentity :: string
  dateNow :: int
  uuidv4 :: string

text \<open>\<^verbatim>\<open>!bytes || bytes.length === 0\<close>\<close>

fun is_empty :: "entry option \<Rightarrow> bool" where
  "is_empty None = True"
| "is_empty (Some (Bytes s)) = (s = [])"
| "is_empty (Some _) = False"

text \<open>
  \<^verbatim>\<open>parseInt(bytes.toString())\<close>: the JSON text of an object starts with a brace, which
  \<^verbatim>\<open>parseInt\<close> reads as \<^verbatim>\<open>NaN\<close>.
\<close>

fun entry_parseInt :: "entry \<Rightarrow> jsnum" where
  "entry_parseInt (Bytes s) = parseInt s"
| "entry_parseInt _ = NaN"

text \<open>
  The balance read that four operations share:
  \<^verbatim>\<open>let existingCredits = 0;
  if (bytes && bytes.length > 0) { existingCredits = parseInt(bytes.toString()); }\<close>
\<close>

definition existingCredits :: "entry option \<Rightarrow> jsnum" where
  "existingCredits bytes =
     (case bytes of
        None \<Rightarrow> Num 0
      | Some b \<Rightarrow> if is_empty bytes then Num 0 else entry_parseInt b)"

fun parse_proposal :: "entry option \<Rightarrow> proposal tx" where
  "parse_proposal (Some (ProposalJson p)) = tx_return p"
| "parse_proposal _ = tx_throw Malformed"

fun parse_auction :: "entry option \<Rightarrow> auction tx" where
  "parse_auction (Some (AuctionJson a)) = tx_return a"
| "parse_auction _ = tx_throw Malformed"

fun parse_sale :: "entry option \<Rightarrow> sale tx" where
  "parse_sale (Some (SaleJson s)) = tx_return s"
| "parse_sale _ = tx_throw Malformed"

section \<open>Keys\<close>

text \<open>
  The source writes its keys and messages in single quotes, as in
  \<^verbatim>\<open>'proposal_${proposalId}'\<close>. A single-quoted JavaScript string is not a template: the
  characters \<^verbatim>\<open>${proposalId}\<close> stay as they are, and the identifier is not part of the key.
\<close>

definition proposal_key :: "string \<Rightarrow> string" where
  "proposal_key proposalId = ''proposal_${proposalId}''"

definition auction_key :: "string \<Rightarrow> string" where
  "auction_key auctionId = ''auction_${auctionId}''"

definition sale_key :: "string \<Rightarrow> string" where
  "sale_key saleId = ''sale_${saleId}''"

section \<open>The operations of CarbonMarketplace\<close>

text \<open>
  Each operation follows its source function statement by statement. A numeric argument
  stands for what \<^verbatim>\<open>parseInt\<close> makes of the argument string, taken to be an integer,
  except the amount of a bid, which is the string itself. The returned messages are the
  source's single-quoted strings as they are.
\<close>

definition initLedger :: "env \<Rightarrow> string \<Rightarrow> string \<Rightarrow> string \<Rightarrow> unit tx" where
  "initLedger ctx gName gCountry gDept =
     (let governmentDetails =
            \<lparr>governmentAddress = clientIdentity ctx, governmentName = gName,
             country = gCountry, deptName = gDept\<rparr>
      in putState ''governmentDetails'' (GovJson governmentDetails))"

definition submitProposal :: "env \<Rightarrow> string \<Rightarrow> int \<Rightarrow> string tx" where
  "submitProposal ctx description target =
     (let proposerId = clientIdentity ctx;
          proposalId = uuidv4 ctx;
          projectProposal =
            \<lparr>proposal_id = proposalId, proposer = proposerId,
             projectDescription = description, carbonReductionTarget = target,
             approved = False, allocatedCredits = 0\<rparr>
      in tx_bind (putState (proposal_key proposalId) (ProposalJson projectProposal))
           (\<lambda>_. tx_return ''Project proposal ${proposalId} submitted by ${proposer}''))"

definition approveProject :: "env \<Rightarrow> string \<Rightarrow> int \<Rightarrow> string tx" where
  "approveProject ctx proposalId credits =
     tx_bind (getState (proposal_key proposalId)) (\<lambda>proposalAsBytes.
       if is_empty proposalAsBytes then tx_throw NotFound
       else tx_bind (parse_proposal proposalAsBytes) (\<lambda>p.
         if approved p then tx_throw AlreadyApproved
         else tx_bind
                (putState (proposal_key proposalId)
                   (ProposalJson (p\<lparr>approved := True, allocatedCredits := credits\<rparr>)))
                (\<lambda>_. tx_return
                   ''Project ${proposalId} approved with ${allocatedCredits} carbon credits allocated'')))"

definition issueCarbonCredits :: "env \<Rightarrow> string \<Rightarrow> string tx" where
  "issueCarbonCredits ctx proposalId =
     tx_bind (getState (proposal_key proposalId)) (\<lambda>proposalAsBytes.
       if is_empty proposalAsBytes then tx_throw NotFound
       else tx_bind (parse_proposal proposalAsBytes) (\<lambda>p.
         if \<not> approved p then tx_throw NotApproved
         else
           let proposerId = proposer p;
               creditsToIssue = allocatedCredits p
           in tx_bind (getState proposerId) (\<lambda>existingCreditsAsBytes.
                let updatedCredits =
                      js_add (existingCredits existingCreditsAsBytes) (Num creditsToIssue)
                in tx_bind (putState proposerId (Bytes (toString updatedCredits)))
                     (\<lambda>_. tx_return ''Issued ${creditsToIssue} carbon credits to ${proposer}''))))"

definition createAuction :: "env \<Rightarrow> int \<Rightarrow> int \<Rightarrow> int \<Rightarrow> string tx" where
  "createAuction ctx credits starting auctionDuration =
     (let auctionId = uuidv4 ctx;
          auctionEndTime = dateNow ctx + auctionDuration * 1000;
          a = \<lparr>auction_id = auctionId, totalCredits = credits, startingBid = starting,
               highestBid = JNum 0, highestBidder = '''', endTime = auctionEndTime,
               ended = False\<rparr>
      in tx_bind (putState (auction_key auctionId) (AuctionJson a))
           (\<lambda>_. tx_return ''Auction ${auctionId} created''))"

text \<open>
  \<open>placeBid\<close> takes the amount as the caller's string. When \<^verbatim>\<open>parseInt(bidAmount)\<close> is
  \<^verbatim>\<open>NaN\<close> both comparisons are false, so the bid is accepted, and the auction is stored
  with \<^verbatim>\<open>highestBid\<close> \<^verbatim>\<open>null\<close>.
\<close>

definition placeBid :: "env \<Rightarrow> string \<Rightarrow> string \<Rightarrow> string tx" where
  "placeBid ctx auctionId bidAmount =
     tx_bind (getState (auction_key auctionId)) (\<lambda>auctionAsBytes.
       if is_empty auctionAsBytes then tx_throw NotFound
       else tx_bind (parse_auction auctionAsBytes) (\<lambda>a.
         if dateNow ctx > endTime a then tx_throw AuctionEnded
         else
           let bidAmountInt = parseInt bidAmount
           in if js_le bidAmountInt (to_number (highestBid a)) \<or>
                 js_less bidAmountInt (Num (startingBid a))
              then tx_throw BidTooLow
              else tx_bind
                     (putState (auction_key auctionId)
                        (AuctionJson
                           (a\<lparr>highestBid := json_number bidAmountInt,
                              highestBidder := clientIdentity ctx\<rparr>)))
                     (\<lambda>_. tx_return
                        ''Bid of ${bidAmountInt} placed for auction ${auctionId}'')))"

text \<open>
  \<open>endAuction\<close> sets \<^verbatim>\<open>auction.ended = true\<close> on the parsed object only: the source has no
  \<^verbatim>\<open>putState\<close> of the auction after it, so the one write is the balance of the highest
  bidder.
\<close>

definition endAuction :: "env \<Rightarrow> string \<Rightarrow> string tx" where
  "endAuction ctx auctionId =
     tx_bind (getState (auction_key auctionId)) (\<lambda>auctionAsBytes.
       if is_empty auctionAsBytes then tx_throw NotFound
       else tx_bind (parse_auction auctionAsBytes) (\<lambda>a0.
         if dateNow ctx < endTime a0 then tx_throw StillOngoing
         else if ended a0 then tx_throw AlreadyEnded
         else
           let a = a0\<lparr>ended := True\<rparr>;
               bidder = highestBidder a;
               creditsToTransfer = totalCredits a
           in tx_bind (getState bidder) (\<lambda>existingCreditsAsBytes.
                let updatedCredits =
                      js_add (existingCredits existingCreditsAsBytes) (Num creditsToTransfer)
                in tx_bind (putState bidder (Bytes (toString updatedCredits)))
                     (\<lambda>_. tx_return
                        ''Auction ${auctionId} ended. ${creditsToTransfer} carbon credits transferred to ${highestBidder}''))))"

definition createSale :: "env \<Rightarrow> int \<Rightarrow> int \<Rightarrow> string tx" where
  "createSale ctx credits price =
     (let saleId = uuidv4 ctx;
          sellerId = clientIdentity ctx
      in tx_bind (getState sellerId) (\<lambda>existingCreditsAsBytes.
           if js_less (existingCredits existingCreditsAsBytes) (Num credits)
           then tx_throw InsufficientCredits
           else
             let s = \<lparr>sale_id = saleId, creditsForSale = credits, pricePerCredit = price,
                      seller = sellerId, sold = False\<rparr>
             in tx_bind (putState (sale_key saleId) (SaleJson s))
                  (\<lambda>_. tx_return ''Sale ${saleId} created by ${seller}'')))"

text \<open>
  In \<open>buyCredits\<close> the seller's key receives \<^verbatim>\<open>sale.seller + totalCost\<close>: a string plus a
  number, which JavaScript concatenates.
\<close>

definition buyCredits :: "env \<Rightarrow> string \<Rightarrow> int \<Rightarrow> string tx" where
  "buyCredits ctx saleId creditsToBuyInt =
     tx_bind (getState (sale_key saleId)) (\<lambda>saleAsBytes.
       if is_empty saleAsBytes then tx_throw NotFound
       else tx_bind (parse_sale saleAsBytes) (\<lambda>s0.
         if sold s0 then tx_throw AlreadySold
         else
           let buyer = clientIdentity ctx;
               totalCost = creditsToBuyInt * pricePerCredit s0
           in tx_bind (getState buyer) (\<lambda>buyerCreditsAsBytes.
                let buyerCredits = existingCredits buyerCreditsAsBytes;
                    s1 = s0\<lparr>creditsForSale := creditsForSale s0 - creditsToBuyInt\<rparr>
                in tx_bind
                     (putState buyer
                        (Bytes (toString (js_add buyerCredits (Num creditsToBuyInt)))))
                     (\<lambda>_. tx_bind
                        (putState (seller s1) (Bytes (seller s1 @ toString (Num totalCost))))
                        (\<lambda>_.
                           let s2 = (if creditsForSale s1 = 0 then s1\<lparr>sold := True\<rparr> else s1)
                           in tx_bind (putState (sale_key saleId) (SaleJson s2))
                                (\<lambda>_. tx_return
                                   ''${creditsToBuyInt} credits bought from sale ${saleId} by ${buyer}''))))))"

section \<open>Invocations and runs\<close>

text \<open>The nine transaction functions of the contract, as the dispatcher can invoke them.\<close>

datatype op =
    InitLedger string string string
  | SubmitProposal string int
  | ApproveProject string int
  | IssueCarbonCredits string
  | CreateAuction int int int
  | PlaceBid string string
  | EndAuction string
  | CreateSale int int
  | BuyCredits string int

fun invoke :: "env \<Rightarrow> op \<Rightarrow> string option tx" where
  "invoke ctx (InitLedger n c d) = tx_bind (initLedger ctx n c d) (\<lambda>_. tx_return None)"
| "invoke ctx (SubmitProposal d t) = tx_bind (submitProposal ctx d t) (\<lambda>m. tx_return (Some m))"
| "invoke ctx (ApproveProject p c) = tx_bind (approveProject ctx p c) (\<lambda>m. tx_return (Some m))"
| "invoke ctx (IssueCarbonCredits p) =
     tx_bind (issueCarbonCredits ctx p) (\<lambda>m. tx_return (Some m))"
| "invoke ctx (CreateAuction c s d) =
     tx_bind (createAuction ctx c s d) (\<lambda>m. tx_return (Some m))"
| "invoke ctx (PlaceBid a b) = tx_bind (placeBid ctx a b) (\<lambda>m. tx_return (Some m))"
| "invoke ctx (EndAuction a) = tx_bind (endAuction ctx a) (\<lambda>m. tx_return (Some m))"
| "invoke ctx (CreateSale c p) = tx_bind (createSale ctx c p) (\<lambda>m. tx_return (Some m))"
| "invoke ctx (BuyCredits s c) = tx_bind (buyCredits ctx s c) (\<lambda>m. tx_return (Some m))"

text \<open>
  The ledger keeps the writes of an invocation that returns and discards those of one
  that throws.
\<close>

definition commit :: "'a tx \<Rightarrow> ledger \<Rightarrow> ledger" where
  "commit m l = (case m l of (Inl e, l') \<Rightarrow> l | (Inr x, l') \<Rightarrow> l')"

fun run :: "(env \<times> op) list \<Rightarrow> ledger \<Rightarrow> ledger" where
  "run [] l = l"
| "run ((ctx, x) # rest) l = run rest (commit (invoke ctx x) l)"


definition caller :: "string \<Rightarrow> int \<Rightarrow> string \<Rightarrow> env" where
  "caller who t u = \<lparr>clientIdentity = who, dateNow = t, uuidv4 = u\<rparr>"

section \<open>Observations of the world state\<close>

text \<open>The credit balance of an identity, as every operation reads it.\<close>

definition creditBalance :: "ledger \<Rightarrow> string \<Rightarrow> jsnum" where
  "creditBalance l who = existingCredits (l who)"

fun is_negative :: "jsnum \<Rightarrow> bool" where
  "is_negative (Num n) = (n < 0)"
| "is_negative NaN = False"

definition proposalAt :: "ledger \<Rightarrow> string \<Rightarrow> proposal option" where
  "proposalAt l proposalId =
     (case l (proposal_key proposalId) of Some (ProposalJson p) \<Rightarrow> Some p | _ \<Rightarrow> None)"

definition auctionAt :: "ledger \<Rightarrow> string \<Rightarrow> auction option" where
  "auctionAt l auctionId =
     (case l (auction_key auctionId) of Some (AuctionJson a) \<Rightarrow> Some a | _ \<Rightarrow> None)"




text \<open>No credit amount of the invocation is negative.\<close>

fun nonneg_op :: "op \<Rightarrow> bool" where
  "nonneg_op (ApproveProject p c) = (0 \<le> c)"
| "nonneg_op (CreateAuction c s d) = (0 \<le> c)"
| "nonneg_op (BuyCredits s c) = (0 \<le> c)"
| "nonneg_op _ = True"

text \<open>
  An identity string that is not empty and starts with neither white space nor a minus
  sign, as the \<^verbatim>\<open>x509::...\<close> identities of the platform do.
\<close>

fun plain_identity :: "string \<Rightarrow> bool" where
  "plain_identity [] = False"
| "plain_identity (c # cs) = (\<not> is_space c \<and> c \<noteq> CHR ''-'')"

text \<open>
  The condition that every run with non-negative amounts keeps: stored balance text does
  not read as a negative number, stored allocations and auction pools are not negative,
  and the seller of a stored sale is a plain identity.
\<close>

fun entry_ok :: "entry \<Rightarrow> bool" where
  "entry_ok (Bytes s) = (\<not> is_negative (parseInt s))"
| "entry_ok (GovJson g) = True"
| "entry_ok (ProposalJson p) = (0 \<le> allocatedCredits p)"
| "entry_ok (AuctionJson a) = (0 \<le> totalCredits a)"
| "entry_ok (SaleJson s) = plain_identity (seller s)"

definition ledger_ok :: "ledger \<Rightarrow> bool" where
  "ledger_ok l = (\<forall>k v. l k = Some v \<longrightarrow> entry_ok v)"

declare invoke.simps [simp del]

section \<open>Number text round trip\<close>

lemma digits_nonempty: "digits n \<noteq> []"
  by (subst digits.simps) simp

lemma digits_lt: "d \<in> set (digits n) \<Longrightarrow> d < 10"
proof (induction n rule: digits.induct)
  case (1 n)
  then show ?case
    by (subst (asm) (2) digits.simps) (auto split: if_splits)
qed

lemma from_digits_snoc: "from_digits r (ds @ [d]) = from_digits r ds * r + d"
  by (simp add: from_digits_def)

lemma from_digits_digits: "from_digits 10 (digits n) = n"
proof (induction n rule: digits.induct)
  case (1 n)
  show ?case
  proof (cases "n < 10")
    case True
    then show ?thesis by (subst digits.simps) (simp add: from_digits_def)
  next
    case False
    with 1 show ?thesis by (subst digits.simps) (simp add: from_digits_snoc)
  qed
qed

lemma of_char_digit_char: "d < 10 \<Longrightarrow> (of_char (digit_char d) :: nat) = 48 + d"
  by (simp add: digit_char_def)

lemma digit_val_digit_char: "d < 10 \<Longrightarrow> digit_val 10 (digit_char d) = Some d"
  by (simp add: digit_val_def of_char_digit_char)

lemma digit_char_not_space: "d < 10 \<Longrightarrow> \<not> is_space (digit_char d)"
  by (simp add: is_space_def of_char_digit_char)

lemma digit_char_neq:
  assumes "d < 10" and "(of_char c :: nat) < 48 \<or> 57 < (of_char c :: nat)"
  shows "digit_char d \<noteq> c"
proof
  assume "digit_char d = c"
  then have "(of_char (digit_char d) :: nat) = of_char c" by simp
  with assms show False by (simp add: of_char_digit_char)
qed

lemma digits_prefix_digit_chars:
  "\<forall>d \<in> set ds. d < 10 \<Longrightarrow> digits_prefix 10 (map digit_char ds) = ds"
  by (induction ds) (simp_all add: digit_val_digit_char)

lemma parseInt_digit_chars:
  assumes "ds \<noteq> []" and "\<forall>d \<in> set ds. d < 10"
  shows "parseInt (map digit_char ds) = Num (int (from_digits 10 ds))"
    and "parseInt (CHR ''-'' # map digit_char ds) = Num (- int (from_digits 10 ds))"
proof -
  from assms obtain d0 rest where ds: "ds = d0 # rest" by (cases ds) auto
  with assms have d0: "d0 < 10" by simp
  have nohex:
    "(case map digit_char ds of
        c0 # cx # _ \<Rightarrow> c0 = CHR ''0'' \<and> (cx = CHR ''x'' \<or> cx = CHR ''X'')
      | _ \<Rightarrow> False) = False"
  proof (cases rest)
    case Nil
    with ds show ?thesis by simp
  next
    case (Cons d1 rest')
    with ds assms have "d1 < 10" by simp
    then have "digit_char d1 \<noteq> CHR ''x''" "digit_char d1 \<noteq> CHR ''X''"
      by (simp_all add: digit_char_neq)
    with ds Cons show ?thesis by simp
  qed
  have sp: "dropWhile is_space (map digit_char ds) = map digit_char ds"
    using ds d0 by (simp add: digit_char_not_space)
  have sg: "digit_char d0 \<noteq> CHR ''-''" "digit_char d0 \<noteq> CHR ''+''"
    using d0 by (simp_all add: digit_char_neq)
  have pre: "digits_prefix 10 (map digit_char ds) = ds"
    using assms(2) by (rule digits_prefix_digit_chars)
  show "parseInt (map digit_char ds) = Num (int (from_digits 10 ds))"
    unfolding parseInt_def sp using nohex pre sg assms(1) ds
    by (simp add: Let_def)
  have minus: "\<not> is_space CHR ''-''" by (simp add: is_space_def)
  show "parseInt (CHR ''-'' # map digit_char ds) = Num (- int (from_digits 10 ds))"
    unfolding parseInt_def using nohex pre minus assms(1)
    by (simp add: Let_def)
qed

text \<open>Reading back a number that was written as text gives the number.\<close>

lemma parseInt_toString: "parseInt (toString x) = x"
proof (cases x)
  case NaN
  then show ?thesis
    by (simp add: toString_def parseInt_def is_space_def digit_val_def Let_def)
next
  case (Num n)
  have a: "\<And>m. digits m \<noteq> []" by (rule digits_nonempty)
  have b: "\<And>m. \<forall>d \<in> set (digits m). d < 10" using digits_lt by blast
  show ?thesis
  proof (cases "n < 0")
    case True
    then show ?thesis using Num parseInt_digit_chars(2)[OF a b, of "nat (- n)"]
      by (simp add: toString_def from_digits_digits)
  next
    case False
    then show ?thesis using Num parseInt_digit_chars(1)[OF a b, of "nat n"]
      by (simp add: toString_def from_digits_digits)
  qed
qed

lemma toString_nonempty: "toString x \<noteq> []"
  by (cases x) (simp_all add: toString_def digits_nonempty)

section \<open>The operations as equations\<close>

lemma parse_proposal_case:
  "parse_proposal x = (case x of Some (ProposalJson p) \<Rightarrow> tx_return p | _ \<Rightarrow> tx_throw Malformed)"
  by (cases x rule: parse_proposal.cases) simp_all

lemma parse_auction_case:
  "parse_auction x = (case x of Some (AuctionJson a) \<Rightarrow> tx_return a | _ \<Rightarrow> tx_throw Malformed)"
  by (cases x rule: parse_auction.cases) simp_all

lemma parse_sale_case:
  "parse_sale x = (case x of Some (SaleJson s) \<Rightarrow> tx_return s | _ \<Rightarrow> tx_throw Malformed)"
  by (cases x rule: parse_sale.cases) simp_all

lemmas tx_defs = tx_bind_def tx_return_def tx_throw_def getState_def putState_def
  parse_proposal_case parse_auction_case parse_sale_case

lemma placeBid_eq:
  "placeBid ctx aid amt l =
     (if is_empty (l (auction_key aid)) then (Inl NotFound, l)
      else case l (auction_key aid) of
        Some (AuctionJson a) \<Rightarrow>
          if endTime a < dateNow ctx then (Inl AuctionEnded, l)
          else if js_le (parseInt amt) (to_number (highestBid a)) \<or>
                  js_less (parseInt amt) (Num (startingBid a))
          then (Inl BidTooLow, l)
          else (Inr ''Bid of ${bidAmountInt} placed for auction ${auctionId}'',
                l(auction_key aid \<mapsto>
                   AuctionJson (a\<lparr>highestBid := json_number (parseInt amt),
                                  highestBidder := clientIdentity ctx\<rparr>)))
      | _ \<Rightarrow> (Inl Malformed, l))"
  by (simp add: placeBid_def tx_defs Let_def split: option.splits entry.splits)

lemma createSale_eq:
  "createSale ctx credits price l =
     (if js_less (creditBalance l (clientIdentity ctx)) (Num credits)
      then (Inl InsufficientCredits, l)
      else (Inr ''Sale ${saleId} created by ${seller}'',
            l(sale_key (uuidv4 ctx) \<mapsto>
               SaleJson \<lparr>sale_id = uuidv4 ctx, creditsForSale = credits,
                         pricePerCredit = price, seller = clientIdentity ctx, sold = False\<rparr>)))"
  by (simp add: createSale_def creditBalance_def tx_defs Let_def)

lemma approveProject_eq:
  "approveProject ctx pid credits l =
     (if is_empty (l (proposal_key pid)) then (Inl NotFound, l)
      else case l (proposal_key pid) of
        Some (ProposalJson p) \<Rightarrow>
          if approved p then (Inl AlreadyApproved, l)
          else (Inr ''Project ${proposalId} approved with ${allocatedCredits} carbon credits allocated'',
                l(proposal_key pid \<mapsto>
                   ProposalJson (p\<lparr>approved := True, allocatedCredits := credits\<rparr>)))
      | _ \<Rightarrow> (Inl Malformed, l))"
  by (simp add: approveProject_def tx_defs split: option.splits entry.splits)

lemma issueCarbonCredits_eq:
  "issueCarbonCredits ctx pid l =
     (if is_empty (l (proposal_key pid)) then (Inl NotFound, l)
      else case l (proposal_key pid) of
        Some (ProposalJson p) \<Rightarrow>
          if \<not> approved p then (Inl NotApproved, l)
          else (Inr ''Issued ${creditsToIssue} carbon credits to ${proposer}'',
                l(proposer p \<mapsto>
                   Bytes (toString (js_add (creditBalance l (proposer p))
                                      (Num (allocatedCredits p))))))
      | _ \<Rightarrow> (Inl Malformed, l))"
  by (simp add: issueCarbonCredits_def creditBalance_def tx_defs Let_def
      split: option.splits entry.splits)

lemma endAuction_eq:
  "endAuction ctx aid l =
     (if is_empty (l (auction_key aid)) then (Inl NotFound, l)
      else case l (auction_key aid) of
        Some (AuctionJson a) \<Rightarrow>
          if dateNow ctx < endTime a then (Inl StillOngoing, l)
          else if ended a then (Inl AlreadyEnded, l)
          else (Inr ''Auction ${auctionId} ended. ${creditsToTransfer} carbon credits transferred to ${highestBidder}'',
                l(highestBidder a \<mapsto>
                   Bytes (toString (js_add (creditBalance l (highestBidder a))
                                      (Num (totalCredits a))))))
      | _ \<Rightarrow> (Inl Malformed, l))"
  by (simp add: endAuction_def creditBalance_def tx_defs Let_def
      split: option.splits entry.splits)

lemma buyCredits_eq:
  "buyCredits ctx sid n l =
     (if is_empty (l (sale_key sid)) then (Inl NotFound, l)
      else case l (sale_key sid) of
        Some (SaleJson s) \<Rightarrow>
          if sold s then (Inl AlreadySold, l)
          else (Inr ''${creditsToBuyInt} credits bought from sale ${saleId} by ${buyer}'',
                l(clientIdentity ctx \<mapsto>
                    Bytes (toString (js_add (creditBalance l (clientIdentity ctx)) (Num n))),
                  seller s \<mapsto>
                    Bytes (seller s @ toString (Num (n * pricePerCredit s))),
                  sale_key sid \<mapsto>
                    SaleJson
                      (if creditsForSale s - n = 0
                       then s\<lparr>creditsForSale := creditsForSale s - n, sold := True\<rparr>
                       else s\<lparr>creditsForSale := creditsForSale s - n\<rparr>)))
      | _ \<Rightarrow> (Inl Malformed, l))"
  by (simp add: buyCredits_def creditBalance_def tx_defs Let_def
      split: option.splits entry.splits)

lemma submitProposal_eq:
  "submitProposal ctx d t l =
     (Inr ''Project proposal ${proposalId} submitted by ${proposer}'',
      l(proposal_key (uuidv4 ctx) \<mapsto>
         ProposalJson \<lparr>proposal_id = uuidv4 ctx, proposer = clientIdentity ctx,
                        projectDescription = d, carbonReductionTarget = t,
                        approved = False, allocatedCredits = 0\<rparr>))"
  by (simp add: submitProposal_def tx_defs Let_def)

lemma createAuction_eq:
  "createAuction ctx c s d l =
     (Inr ''Auction ${auctionId} created'',
      l(auction_key (uuidv4 ctx) \<mapsto>
         AuctionJson \<lparr>auction_id = uuidv4 ctx, totalCredits = c, startingBid = s,
                       highestBid = JNum 0, highestBidder = [],
                       endTime = dateNow ctx + d * 1000, ended = False\<rparr>))"
  by (simp add: createAuction_def tx_defs Let_def)

lemma initLedger_eq:
  "initLedger ctx n c d l =
     (Inr (),
      l(''governmentDetails'' \<mapsto>
         GovJson \<lparr>governmentAddress = clientIdentity ctx, governmentName = n,
                   country = c, deptName = d\<rparr>))"
  by (simp add: initLedger_def tx_defs Let_def)

section \<open>A throwing invocation has written nothing\<close>

lemma approveProject_fails: "fst (approveProject ctx p c l) = Inl e \<Longrightarrow> snd (approveProject ctx p c l) = l"
  by (auto simp: approveProject_eq split: option.splits entry.splits if_splits)
lemma issue_fails: "fst (issueCarbonCredits ctx p l) = Inl e \<Longrightarrow> snd (issueCarbonCredits ctx p l) = l"
  by (auto simp: issueCarbonCredits_eq split: option.splits entry.splits if_splits)
lemma placeBid_fails: "fst (placeBid ctx p c l) = Inl e \<Longrightarrow> snd (placeBid ctx p c l) = l"
  by (auto simp: placeBid_eq split: option.splits entry.splits if_splits)
lemma endAuction_fails: "fst (endAuction ctx p l) = Inl e \<Longrightarrow> snd (endAuction ctx p l) = l"
  by (auto simp: endAuction_eq split: option.splits entry.splits if_splits)
lemma createSale_fails: "fst (createSale ctx p c l) = Inl e \<Longrightarrow> snd (createSale ctx p c l) = l"
  by (auto simp: createSale_eq split: option.splits entry.splits if_splits)
lemma buyCredits_fails: "fst (buyCredits ctx p c l) = Inl e \<Longrightarrow> snd (buyCredits ctx p c l) = l"
  by (auto simp: buyCredits_eq split: option.splits entry.splits if_splits)
lemma submitProposal_returns: "fst (submitProposal ctx d t l) \<noteq> Inl e"
  by (simp add: submitProposal_eq)
lemma createAuction_returns: "fst (createAuction ctx d t u l) \<noteq> Inl e"
  by (simp add: createAuction_eq)
lemma initLedger_returns: "fst (initLedger ctx d t u l) \<noteq> Inl e"
  by (simp add: initLedger_eq)

lemma tx_bind_return_fst: "fst (tx_bind m (\<lambda>x. tx_return (f x)) l) = Inl e \<longleftrightarrow> fst (m l) = Inl e"
  by (simp add: tx_defs split: prod.splits sum.splits)
lemma tx_bind_return_snd: "snd (tx_bind m (\<lambda>x. tx_return (f x)) l) = snd (m l)"
  by (simp add: tx_defs split: prod.splits sum.splits)

lemma invoke_fails: "fst (invoke ctx x l) = Inl e \<Longrightarrow> snd (invoke ctx x l) = l"
  by (cases x)
    (simp_all add: invoke.simps tx_bind_return_fst tx_bind_return_snd approveProject_fails
      issue_fails placeBid_fails endAuction_fails createSale_fails buyCredits_fails
      submitProposal_returns createAuction_returns initLedger_returns)

lemma commit_invoke: "commit (invoke ctx x) l = snd (invoke ctx x l)"
  using invoke_fails [of ctx x l]
  by (auto simp: commit_def split: prod.splits sum.splits)

lemma invoke_simps:
  "snd (invoke ctx (InitLedger n c d) l) = snd (initLedger ctx n c d l)"
  "snd (invoke ctx (SubmitProposal de t) l) = snd (submitProposal ctx de t l)"
  "snd (invoke ctx (ApproveProject p cr) l) = snd (approveProject ctx p cr l)"
  "snd (invoke ctx (IssueCarbonCredits p) l) = snd (issueCarbonCredits ctx p l)"
  "snd (invoke ctx (CreateAuction cr s du) l) = snd (createAuction ctx cr s du l)"
  "snd (invoke ctx (PlaceBid a b) l) = snd (placeBid ctx a b l)"
  "snd (invoke ctx (EndAuction a) l) = snd (endAuction ctx a l)"
  "snd (invoke ctx (CreateSale cr pr) l) = snd (createSale ctx cr pr l)"
  "snd (invoke ctx (BuyCredits sa cr) l) = snd (buyCredits ctx sa cr l)"
  by (simp_all add: tx_bind_return_snd invoke.simps)

lemma commit_ops:
  "commit (invoke ctx (InitLedger n c d)) l = snd (initLedger ctx n c d l)"
  "commit (invoke ctx (SubmitProposal de t)) l = snd (submitProposal ctx de t l)"
  "commit (invoke ctx (ApproveProject p cr)) l = snd (approveProject ctx p cr l)"
  "commit (invoke ctx (IssueCarbonCredits p)) l = snd (issueCarbonCredits ctx p l)"
  "commit (invoke ctx (CreateAuction cr s du)) l = snd (createAuction ctx cr s du l)"
  "commit (invoke ctx (PlaceBid a b)) l = snd (placeBid ctx a b l)"
  "commit (invoke ctx (EndAuction a)) l = snd (endAuction ctx a l)"
  "commit (invoke ctx (CreateSale cr pr)) l = snd (createSale ctx cr pr l)"
  "commit (invoke ctx (BuyCredits sa cr)) l = snd (buyCredits ctx sa cr l)"
  by (simp_all only: commit_invoke invoke_simps)

section \<open>Balances under runs with non-negative amounts\<close>

lemma balance_ok: "ledger_ok l \<Longrightarrow> \<not> is_negative (creditBalance l k)"
proof (cases "l k")
  case None
  then show ?thesis by (simp add: creditBalance_def existingCredits_def)
next
  case (Some v)
  assume "ledger_ok l"
  with Some have "entry_ok v" by (auto simp: ledger_ok_def)
  with Some show ?thesis
    by (cases v) (simp_all add: creditBalance_def existingCredits_def)
qed

lemma add_ok: "\<not> is_negative x \<Longrightarrow> 0 \<le> n \<Longrightarrow> \<not> is_negative (js_add x (Num n))"
  by (cases x) simp_all

lemma written_ok: "\<not> is_negative x \<Longrightarrow> entry_ok (Bytes (toString x))"
  by (simp add: parseInt_toString)

lemma seller_text_ok: "plain_identity s \<Longrightarrow> \<not> is_negative (parseInt (s @ t))"
  by (cases s) (simp_all add: parseInt_def Let_def)

lemma ledger_ok_upd: "ledger_ok l \<Longrightarrow> entry_ok v \<Longrightarrow> ledger_ok (l(k \<mapsto> v))"
  by (simp add: ledger_ok_def)

lemma ledger_ok_lookup: "ledger_ok l \<Longrightarrow> l k = Some v \<Longrightarrow> entry_ok v"
  by (auto simp: ledger_ok_def)

lemma invoke_ok:
  assumes ok: "ledger_ok l" and who: "plain_identity (clientIdentity ctx)" and nn: "nonneg_op x"
  shows "ledger_ok (commit (invoke ctx x) l)"
proof (cases x)
  case (InitLedger n c d)
  then show ?thesis using ok
    by (simp add: commit_ops initLedger_eq ledger_ok_upd)
next
  case (SubmitProposal d t)
  then show ?thesis using ok
    by (simp add: commit_ops submitProposal_eq ledger_ok_upd)
next
  case (ApproveProject p c)
  then show ?thesis using ok nn
    by (auto simp: commit_ops approveProject_eq ledger_ok_upd
        split: option.splits entry.splits)
next
  case (IssueCarbonCredits p)
  show ?thesis
  proof (cases "\<exists>q. l (proposal_key p) = Some (ProposalJson q) \<and> approved q")
    case True
    then obtain q where q: "l (proposal_key p) = Some (ProposalJson q)" "approved q" by blast
    from ok q(1) have "0 \<le> allocatedCredits q" using ledger_ok_lookup by fastforce
    then have "entry_ok (Bytes (toString (js_add (creditBalance l (proposer q)) (Num (allocatedCredits q)))))"
      using ok by (intro written_ok add_ok balance_ok)
    then show ?thesis using IssueCarbonCredits q ok
      by (simp add: commit_ops issueCarbonCredits_eq ledger_ok_upd)
  next
    case False
    then show ?thesis using IssueCarbonCredits ok
      by (auto simp: commit_ops issueCarbonCredits_eq
        split: option.splits entry.splits)
  qed
next
  case (CreateAuction c s d)
  then show ?thesis using ok nn
    by (simp add: commit_ops createAuction_eq ledger_ok_upd)
next
  case (PlaceBid a b)
  show ?thesis
  proof (cases "\<exists>q. l (auction_key a) = Some (AuctionJson q)")
    case True
    then obtain q where q: "l (auction_key a) = Some (AuctionJson q)" by blast
    from ok q have "0 \<le> totalCredits q" using ledger_ok_lookup by fastforce
    then show ?thesis using PlaceBid q ok
      by (simp add: commit_ops placeBid_eq ledger_ok_upd)
  next
    case False
    then show ?thesis using PlaceBid ok
      by (auto simp: commit_ops placeBid_eq split: option.splits entry.splits)
  qed
next
  case (EndAuction a)
  show ?thesis
  proof (cases "\<exists>q. l (auction_key a) = Some (AuctionJson q) \<and> \<not> dateNow ctx < endTime q \<and> \<not> ended q")
    case True
    then obtain q where q: "l (auction_key a) = Some (AuctionJson q)"
      "\<not> dateNow ctx < endTime q" "\<not> ended q" by blast
    from ok q(1) have "0 \<le> totalCredits q" using ledger_ok_lookup by fastforce
    then have "entry_ok (Bytes (toString (js_add (creditBalance l (highestBidder q)) (Num (totalCredits q)))))"
      using ok by (intro written_ok add_ok balance_ok)
    then show ?thesis using EndAuction q ok
      by (simp add: commit_ops endAuction_eq ledger_ok_upd)
  next
    case False
    then show ?thesis using EndAuction ok
      by (auto simp: commit_ops endAuction_eq
        split: option.splits entry.splits)
  qed
next
  case (CreateSale c p)
  then show ?thesis using ok who
    by (simp add: commit_ops createSale_eq ledger_ok_upd)
next
  case (BuyCredits sa n)
  show ?thesis
  proof (cases "\<exists>q. l (sale_key sa) = Some (SaleJson q) \<and> \<not> sold q")
    case True
    then obtain q where q: "l (sale_key sa) = Some (SaleJson q)" "\<not> sold q" by blast
    from ok q(1) have pl: "plain_identity (seller q)" using ledger_ok_lookup by fastforce
    from nn BuyCredits have "0 \<le> n" by simp
    then have b: "entry_ok (Bytes (toString (js_add (creditBalance l (clientIdentity ctx)) (Num n))))"
      using ok by (intro written_ok add_ok balance_ok)
    have s: "entry_ok (Bytes (seller q @ toString (Num (n * pricePerCredit q))))"
      using pl by (simp add: seller_text_ok)
    show ?thesis using BuyCredits q ok b s pl
      by (simp add: commit_ops buyCredits_eq ledger_ok_upd)
  next
    case False
    then show ?thesis using BuyCredits ok
      by (auto simp: commit_ops buyCredits_eq
        split: option.splits entry.splits)
  qed
qed

lemma run_ok:
  "ledger_ok l \<Longrightarrow> \<forall>c \<in> set calls. plain_identity (clientIdentity (fst c)) \<and> nonneg_op (snd c)
     \<Longrightarrow> ledger_ok (run calls l)"
proof (induction calls arbitrary: l)
  case Nil
  then show ?case by simp
next
  case (Cons c calls)
  obtain ctx x where c: "c = (ctx, x)" by (cases c)
  with Cons.prems have "ledger_ok (commit (invoke ctx x) l)" by (simp add: invoke_ok)
  with Cons c show ?case by simp
qed

section \<open>Runs of bids and of purchases\<close>






lemma balance_example: "creditBalance (Map.empty(''carol'' \<mapsto> Bytes ''50'')) ''carol'' = Num 50"
  by code_simp

section \<open>Proposals\<close>

text \<open>
  C1. Claimed: every \<open>submitProposal\<close> stores its record under \<open>proposal_\<close> followed by
  the fresh identifier, so two submissions give two records under two keys. The source's
  key is the single-quoted \<^verbatim>\<open>'proposal_${proposalId}'\<close>, the same text for every
  identifier: after two submissions with different identifiers the ledger has one key,
  and it holds the second record; the first is overwritten.
\<close>

theorem submitProposal_twice_one_record:
  "proposal_key ''id-1'' = proposal_key ''id-2'' \<and>
   proposalAt
     (run [(caller ''alice'' 1 ''id-1'', SubmitProposal ''first'' 10),
           (caller ''bob'' 2 ''id-2'', SubmitProposal ''second'' 20)] Map.empty) ''id-1'' =
     Some \<lparr>proposal_id = ''id-2'', proposer = ''bob'', projectDescription = ''second'',
           carbonReductionTarget = 20, approved = False, allocatedCredits = 0\<rparr> \<and>
   dom (run [(caller ''alice'' 1 ''id-1'', SubmitProposal ''first'' 10),
             (caller ''bob'' 2 ''id-2'', SubmitProposal ''second'' 20)] Map.empty) =
     {''proposal_${proposalId}''}"
  by (simp add: proposal_key_def proposalAt_def commit_ops submitProposal_eq caller_def)

text \<open>
  C2, as claimed, fails: after submit, approve with 100 and issue, the proposer holds 100,
  but a second \<open>issueCarbonCredits\<close> returns normally and the proposer holds 200.
\<close>

theorem issue_twice_counterexample:
  "creditBalance
     (run [(caller ''alice'' 1 ''p1'', SubmitProposal ''wind farm'' 7),
           (caller ''gov'' 2 ''u2'', ApproveProject ''p1'' 100),
           (caller ''gov'' 3 ''u3'', IssueCarbonCredits ''p1'')] Map.empty) ''alice'' = Num 100 \<and>
   fst (issueCarbonCredits (caller ''gov'' 4 ''u4'') ''p1''
     (run [(caller ''alice'' 1 ''p1'', SubmitProposal ''wind farm'' 7),
           (caller ''gov'' 2 ''u2'', ApproveProject ''p1'' 100),
           (caller ''gov'' 3 ''u3'', IssueCarbonCredits ''p1'')] Map.empty)) =
     Inr ''Issued ${creditsToIssue} carbon credits to ${proposer}'' \<and>
   creditBalance
     (run [(caller ''alice'' 1 ''p1'', SubmitProposal ''wind farm'' 7),
           (caller ''gov'' 2 ''u2'', ApproveProject ''p1'' 100),
           (caller ''gov'' 3 ''u3'', IssueCarbonCredits ''p1''),
           (caller ''gov'' 4 ''u4'', IssueCarbonCredits ''p1'')] Map.empty) ''alice'' = Num 200"
  by code_simp

text \<open>
  C2, amended. When the proposer holds no credits before and the proposer's identity is not
  the proposal key, then after submit, approve with 100 and issue the proposer holds 100;
  a second \<open>issueCarbonCredits\<close> for the same proposal id returns normally as well,
  since nothing records the issuance, and the proposer then holds 200.
\<close>

theorem issue_twice_mints_twice:
  assumes "creditBalance l (clientIdentity cs) = Num 0"
    and "clientIdentity cs \<noteq> proposal_key (uuidv4 cs)"
  shows "creditBalance
           (run [(cs, SubmitProposal d t), (ca, ApproveProject (uuidv4 cs) 100),
                 (ci, IssueCarbonCredits (uuidv4 cs))] l) (clientIdentity cs) = Num 100 \<and>
         fst (issueCarbonCredits ci' (uuidv4 cs)
           (run [(cs, SubmitProposal d t), (ca, ApproveProject (uuidv4 cs) 100),
                 (ci, IssueCarbonCredits (uuidv4 cs))] l)) =
           Inr ''Issued ${creditsToIssue} carbon credits to ${proposer}'' \<and>
         creditBalance
           (snd (issueCarbonCredits ci' (uuidv4 cs)
             (run [(cs, SubmitProposal d t), (ca, ApproveProject (uuidv4 cs) 100),
                   (ci, IssueCarbonCredits (uuidv4 cs))] l))) (clientIdentity cs) = Num 200"
proof -
  let ?P = "clientIdentity cs"
  let ?k = "proposal_key (uuidv4 cs)"
  let ?p = "\<lparr>proposal_id = uuidv4 cs, proposer = ?P, projectDescription = d,
             carbonReductionTarget = t, approved = True, allocatedCredits = 100\<rparr>"
  let ?l2 = "l(?k \<mapsto> ProposalJson ?p)"
  let ?l3 = "?l2(?P \<mapsto> Bytes (toString (Num 100)))"
  have b2: "creditBalance ?l2 ?P = Num 0"
    using assms by (simp add: creditBalance_def)
  have r3: "run [(cs, SubmitProposal d t), (ca, ApproveProject (uuidv4 cs) 100),
                 (ci, IssueCarbonCredits (uuidv4 cs))] l = ?l3"
    using b2 by (simp add: commit_ops submitProposal_eq approveProject_eq issueCarbonCredits_eq)
  have b3: "creditBalance ?l3 ?P = Num 100"
    by (simp add: creditBalance_def existingCredits_def parseInt_toString toString_nonempty)
  have k3: "?l3 ?k = Some (ProposalJson ?p)"
    using assms(2) by simp
  have r4: "issueCarbonCredits ci' (uuidv4 cs) ?l3 =
      (Inr ''Issued ${creditsToIssue} carbon credits to ${proposer}'',
       ?l3(?P \<mapsto> Bytes (toString (Num 200))))"
    using k3 b3 by (simp add: issueCarbonCredits_eq)
  have b4: "creditBalance (?l3(?P \<mapsto> Bytes (toString (Num 200)))) ?P = Num 200"
    by (simp add: creditBalance_def existingCredits_def parseInt_toString toString_nonempty)
  show ?thesis unfolding r3 r4 using b3 b4 by simp
qed

theorem issue_twice_mints_twice_witness:
  "creditBalance Map.empty ''alice'' = Num 0 \<and> ''alice'' \<noteq> proposal_key ''p1'' \<and>
   creditBalance
     (run [(caller ''alice'' 1 ''p1'', SubmitProposal ''wind farm'' 7),
           (caller ''gov'' 2 ''u2'', ApproveProject ''p1'' 100),
           (caller ''gov'' 3 ''u3'', IssueCarbonCredits ''p1'')] Map.empty) ''alice'' = Num 100 \<and>
   creditBalance
     (snd (issueCarbonCredits (caller ''gov'' 4 ''u4'') ''p1''
        (run [(caller ''alice'' 1 ''p1'', SubmitProposal ''wind farm'' 7),
              (caller ''gov'' 2 ''u2'', ApproveProject ''p1'' 100),
              (caller ''gov'' 3 ''u3'', IssueCarbonCredits ''p1'')] Map.empty))) ''alice'' = Num 200"
proof -
  have h1: "creditBalance Map.empty (clientIdentity (caller ''alice'' 1 ''p1'')) = Num 0"
    by (simp add: creditBalance_def existingCredits_def)
  have h2: "clientIdentity (caller ''alice'' 1 ''p1'') \<noteq> proposal_key (uuidv4 (caller ''alice'' 1 ''p1''))"
    by (simp add: caller_def proposal_key_def)
  from issue_twice_mints_twice [OF h1 h2, of "''wind farm''" 7 "caller ''gov'' 2 ''u2''"
      "caller ''gov'' 3 ''u3''" "caller ''gov'' 4 ''u4''"] h1 h2
  show ?thesis by (simp add: caller_def)
qed

section \<open>Sales\<close>

text \<open>
  C3. Claimed: a successful \<open>buyCredits\<close> reads the seller's balance, adds
  \<open>creditsToBuy * pricePerCredit\<close> and writes the sum back as a number. The source writes
  \<^verbatim>\<open>sale.seller + totalCost\<close>, the identity string followed by the digits of the cost:
  a seller who held 50 and sold 2 credits at 3 each has the text \<^verbatim>\<open>carol6\<close> under her key
  and no longer a number, where the claim gives 56.
\<close>

theorem buyCredits_seller_text:
  "creditBalance
     (run [(caller ''carol'' 1 ''p1'', SubmitProposal ''solar'' 7),
           (caller ''gov'' 2 ''u2'', ApproveProject ''p1'' 50),
           (caller ''gov'' 3 ''u3'', IssueCarbonCredits ''p1''),
           (caller ''carol'' 4 ''s1'', CreateSale 10 3)] Map.empty) ''carol'' = Num 50 \<and>
   run [(caller ''carol'' 1 ''p1'', SubmitProposal ''solar'' 7),
        (caller ''gov'' 2 ''u2'', ApproveProject ''p1'' 50),
        (caller ''gov'' 3 ''u3'', IssueCarbonCredits ''p1''),
        (caller ''carol'' 4 ''s1'', CreateSale 10 3),
        (caller ''dave'' 5 ''u5'', BuyCredits ''s1'' 2)] Map.empty ''carol'' =
     Some (Bytes ''carol6'') \<and>
   creditBalance
     (run [(caller ''carol'' 1 ''p1'', SubmitProposal ''solar'' 7),
           (caller ''gov'' 2 ''u2'', ApproveProject ''p1'' 50),
           (caller ''gov'' 3 ''u3'', IssueCarbonCredits ''p1''),
           (caller ''carol'' 4 ''s1'', CreateSale 10 3),
           (caller ''dave'' 5 ''u5'', BuyCredits ''s1'' 2)] Map.empty) ''carol'' = NaN"
  by code_simp




text \<open>
  C9. \<open>createSale\<close> throws \<open>InsufficientCredits\<close> exactly when the seller's balance, as
  read from the ledger, is less than the amount offered. Otherwise its one write is the
  new sale record, so the seller's balance record is as before (the seller's key is an
  identity, not the key of the sale record).
\<close>

theorem createSale_outcomes:
  "((fst (createSale ctx credits price l) = Inl InsufficientCredits) =
      js_less (creditBalance l (clientIdentity ctx)) (Num credits)) \<and>
   (\<not> js_less (creditBalance l (clientIdentity ctx)) (Num credits) \<longrightarrow>
      snd (createSale ctx credits price l) =
        l(sale_key (uuidv4 ctx) \<mapsto>
           SaleJson \<lparr>sale_id = uuidv4 ctx, creditsForSale = credits,
                     pricePerCredit = price, seller = clientIdentity ctx, sold = False\<rparr>) \<and>
      (clientIdentity ctx \<noteq> sale_key (uuidv4 ctx) \<longrightarrow>
         snd (createSale ctx credits price l) (clientIdentity ctx) = l (clientIdentity ctx) \<and>
         creditBalance (snd (createSale ctx credits price l)) (clientIdentity ctx) =
           creditBalance l (clientIdentity ctx)))"
  by (simp add: createSale_eq creditBalance_def)

theorem createSale_outcomes_witness:
  "\<not> js_less (creditBalance (Map.empty(''carol'' \<mapsto> Bytes ''50'')) ''carol'') (Num 10) \<and>
   ''carol'' \<noteq> sale_key ''s1'' \<and>
   fst (createSale (caller ''carol'' 0 ''s1'') 10 3 (Map.empty(''carol'' \<mapsto> Bytes ''50''))) \<noteq> Inl InsufficientCredits \<and>
   snd (createSale (caller ''carol'' 0 ''s1'') 10 3 (Map.empty(''carol'' \<mapsto> Bytes ''50''))) ''carol'' = Some (Bytes ''50'')"
  using createSale_outcomes [of "caller ''carol'' 0 ''s1''" 10 3 "Map.empty(''carol'' \<mapsto> Bytes ''50'')"]
  by (simp add: caller_def balance_example sale_key_def)

section \<open>Auctions\<close>

text \<open>
  C7. Claimed: \<open>placeBid\<close> throws \<open>NotFound\<close> exactly when no auction record exists at the key
  of the given auction id. The source's key is the single-quoted
  \<^verbatim>\<open>'auction_${auctionId}'\<close>, the same text for every id: with the one auction \<open>a1\<close>
  created, a bid of 60 on the id \<open>zz\<close>, which names no auction, returns normally and
  replaces the highest bid and bidder of \<open>a1\<close>.
\<close>

theorem placeBid_unknown_id_returns:
  "fst (placeBid (caller ''bob'' 500 ''u2'') ''zz'' ''60''
     (run [(caller ''gov'' 0 ''a1'', CreateAuction 40 50 1)] Map.empty)) =
     Inr ''Bid of ${bidAmountInt} placed for auction ${auctionId}'' \<and>
   auctionAt
     (run [(caller ''gov'' 0 ''a1'', CreateAuction 40 50 1),
           (caller ''bob'' 500 ''u2'', PlaceBid ''zz'' ''60'')] Map.empty) ''a1'' =
     Some \<lparr>auction_id = ''a1'', totalCredits = 40, startingBid = 50, highestBid = JNum 60,
           highestBidder = ''bob'', endTime = 1000, ended = False\<rparr>"
  by code_simp




text \<open>
  C8. Claimed: after a first successful \<open>endAuction\<close> every later one throws
  \<open>AlreadyEnded\<close>. The source sets \<open>ended\<close> on the parsed object and never stores the
  auction, so the stored auction still has \<open>ended = false\<close>: a second \<open>endAuction\<close> returns
  normally and credits the pool of 40 to the highest bidder again, who then holds 80.
\<close>

theorem endAuction_twice_mints_twice:
  "map_option ended (auctionAt
     (run [(caller ''gov'' 0 ''a1'', CreateAuction 40 50 1),
           (caller ''bob'' 500 ''u2'', PlaceBid ''a1'' ''60''),
           (caller ''gov'' 1000 ''u3'', EndAuction ''a1'')] Map.empty) ''a1'') = Some False \<and>
   creditBalance
     (run [(caller ''gov'' 0 ''a1'', CreateAuction 40 50 1),
           (caller ''bob'' 500 ''u2'', PlaceBid ''a1'' ''60''),
           (caller ''gov'' 1000 ''u3'', EndAuction ''a1'')] Map.empty) ''bob'' = Num 40 \<and>
   fst (endAuction (caller ''gov'' 2000 ''u4'') ''a1''
     (run [(caller ''gov'' 0 ''a1'', CreateAuction 40 50 1),
           (caller ''bob'' 500 ''u2'', PlaceBid ''a1'' ''60''),
           (caller ''gov'' 1000 ''u3'', EndAuction ''a1'')] Map.empty)) =
     Inr ''Auction ${auctionId} ended. ${creditsToTransfer} carbon credits transferred to ${highestBidder}'' \<and>
   creditBalance
     (run [(caller ''gov'' 0 ''a1'', CreateAuction 40 50 1),
           (caller ''bob'' 500 ''u2'', PlaceBid ''a1'' ''60''),
           (caller ''gov'' 1000 ''u3'', EndAuction ''a1''),
           (caller ''gov'' 2000 ''u4'', EndAuction ''a1'')] Map.empty) ''bob'' = Num 80"
  by code_simp

section \<open>Balances\<close>

text \<open>
  C5, as claimed, fails: approving a proposal with \<open>-5\<close> credits and issuing them leaves
  the proposer with the balance \<open>-5\<close>.
\<close>

theorem negative_balance_counterexample:
  "creditBalance
     (run [(caller ''alice'' 1 ''p1'', SubmitProposal ''wind farm'' 7),
           (caller ''gov'' 2 ''u2'', ApproveProject ''p1'' (- 5)),
           (caller ''gov'' 3 ''u3'', IssueCarbonCredits ''p1'')] Map.empty) ''alice'' = Num (- 5) \<and>
   is_negative (creditBalance
     (run [(caller ''alice'' 1 ''p1'', SubmitProposal ''wind farm'' 7),
           (caller ''gov'' 2 ''u2'', ApproveProject ''p1'' (- 5)),
           (caller ''gov'' 3 ''u3'', IssueCarbonCredits ''p1'')] Map.empty) ''alice'')"
  by code_simp

text \<open>
  C5, amended. Let every invocation of a run from the empty ledger come from a plain
  identity, and let no \<open>approveProject\<close> credits, \<open>createAuction\<close> pool or \<open>buyCredits\<close>
  amount be negative. Then no key ever holds a negative balance: what a balance read
  finds there is a number that is at least zero, or text that is not a number.
\<close>

theorem balance_never_negative:
  "\<forall>c \<in> set calls. plain_identity (clientIdentity (fst c)) \<and> nonneg_op (snd c)
     \<Longrightarrow> \<not> is_negative (creditBalance (run calls Map.empty) who)"
proof -
  assume a: "\<forall>c \<in> set calls. plain_identity (clientIdentity (fst c)) \<and> nonneg_op (snd c)"
  have "ledger_ok Map.empty" by (simp add: ledger_ok_def)
  then have "ledger_ok (run calls Map.empty)" using a by (rule run_ok)
  then show ?thesis by (rule balance_ok)
qed

theorem balance_never_negative_witness:
  "plain_identity ''alice'' \<and> plain_identity ''gov'' \<and>
   nonneg_op (ApproveProject ''p1'' 100) \<and>
   \<not> is_negative (creditBalance
     (run [(caller ''alice'' 1 ''p1'', SubmitProposal ''wind farm'' 7),
           (caller ''gov'' 2 ''u2'', ApproveProject ''p1'' 100),
           (caller ''gov'' 3 ''u3'', IssueCarbonCredits ''p1'')] Map.empty) ''alice'')"
proof -
  have h: "\<forall>c \<in> set [(caller ''alice'' 1 ''p1'', SubmitProposal ''wind farm'' 7),
                 (caller ''gov'' 2 ''u2'', ApproveProject ''p1'' 100),
                 (caller ''gov'' 3 ''u3'', IssueCarbonCredits ''p1'')].
      plain_identity (clientIdentity (fst c)) \<and> nonneg_op (snd c)"
    by (simp add: caller_def is_space_def)
  from balance_never_negative [OF h, of "''alice''"] show ?thesis
    by (simp add: is_space_def)
qed

section \<open>Errors\<close>

text \<open>
  C10. An invocation of any operation of the contract that throws has made no write: the
  ledger at the throw is the ledger it started from.
\<close>

theorem failed_invocation_writes_nothing:
  "fst (invoke ctx x l) = Inl e \<Longrightarrow> snd (invoke ctx x l) = l"
  by (rule invoke_fails)

theorem failed_invocation_writes_nothing_witness:
  "fst (invoke (caller ''gov'' 0 ''u'') (ApproveProject ''p1'' 100) Map.empty) = Inl NotFound \<and>
   snd (invoke (caller ''gov'' 0 ''u'') (ApproveProject ''p1'' 100) Map.empty) = Map.empty"
proof -
  have h: "fst (invoke (caller ''gov'' 0 ''u'') (ApproveProject ''p1'' 100) Map.empty) = Inl NotFound"
    by (simp add: invoke.simps tx_bind_return_fst approveProject_eq)
  from h failed_invocation_writes_nothing [OF h] show ?thesis by simp
qed

end
